theory Spec2Isabelle
  imports Main
begin

section \<open>The boardgame client: data\<close>

text \<open>
  The client is one React component, \<open>App\<close>. Its response types are the four interfaces at
  the head of the file. The numeric field \<open>allowed_emails\<close> is only displayed, never
  computed with, and is kept as an integer.
\<close>

record ApiInfo =
  app_name :: string
  description :: string
  authentication :: string
  allowed_emails :: int

record ProtectedData =
  message :: string
  data :: string
  user_email :: string
  game_access :: bool
  auth_method :: string

record UserInfo =
  email :: string
  name :: string
  picture :: "string option"
  authenticated :: bool
  token_issuer :: "string option"

record AuthResponse =
  authorization_url :: string
  state :: string

text \<open>
  An awaited axios call either resolves with the response data or rejects. What the
  \<open>catch\<close> blocks look at is whether the thrown value is an \<open>AxiosError\<close>, its
  \<open>message\<close>, and \<open>err.response?.status\<close> (absent when no response arrived). A settled
  call is a value of \<open>failure + 'a\<close>, with \<open>Inl\<close> the rejection.
\<close>

datatype failure = AxiosError string "nat option" | OtherError

datatype http_method = GET | POST

record request =
  http_method :: http_method
  url :: string
  authorization :: "string option"

text \<open>
  The state the component works on: the six \<open>useState\<close> cells, the browser's
  \<open>localStorage\<close>, \<open>window.location\<close> (its \<open>pathname\<close>, and its \<open>search\<close> as
  \<open>URLSearchParams\<close> presents it: the name/value pairs in order), the URL assigned to
  \<open>window.location.href\<close> if any, the HTTP requests issued so far, and what went to
  \<open>console.error\<close>.
\<close>

record App =
  apiInfo :: "ApiInfo option"
  protectedData :: "ProtectedData option"
  userInfo :: "UserInfo option"
  loading :: bool
  error :: "string option"
  authToken :: "string option"
  localStorage :: "string \<rightharpoonup> string"
  pathname :: string
  search :: "(string \<times> string) list"
  href :: "string option"
  requests :: "request list"
  console :: "(string \<times> failure) list"

text \<open>
  An \<open>async\<close> function runs synchronously up to its first \<open>await\<close> and goes on when the
  awaited call settles. Its synchronous prefix either returns at once (\<open>Settled\<close>) or
  leaves a request in flight (\<open>InFlight\<close>).
\<close>

datatype progress = Settled App | InFlight App

fun state_of :: "progress \<Rightarrow> App" where
  "state_of (Settled s) = s"
| "state_of (InFlight s) = s"

section \<open>The operations\<close>

definition API_BASE_URL :: string where
  "API_BASE_URL = ''http://localhost:8000''"

text \<open>JavaScript truthiness of a \<open>string | null\<close>: \<open>null\<close> and the empty string are falsy.\<close>

definition truthy :: "string option \<Rightarrow> bool" where
  "truthy v = (case v of None \<Rightarrow> False | Some t \<Rightarrow> t \<noteq> [])"

text \<open>
  JavaScript's \<open>a || b\<close> on two values of type \<open>string | null\<close>: \<open>a\<close> when it is truthy,
  \<open>b\<close> otherwise.
\<close>

definition js_or :: "string option \<Rightarrow> string option \<Rightarrow> string option" where
  "js_or a b = (if truthy a then a else b)"

text \<open>\<open>URLSearchParams.get\<close>: the first value under the name, or \<open>null\<close>.\<close>

definition urlParams_get :: "(string \<times> string) list \<Rightarrow> string \<Rightarrow> string option" where
  "urlParams_get params k = map_of params k"

definition setItem :: "string \<Rightarrow> string \<Rightarrow> App \<Rightarrow> App" where
  "setItem k v s = s\<lparr>localStorage := (localStorage s)(k \<mapsto> v)\<rparr>"

definition removeItem :: "string \<Rightarrow> App \<Rightarrow> App" where
  "removeItem k s = s\<lparr>localStorage := (localStorage s)(k := None)\<rparr>"

definition axios_send :: "request \<Rightarrow> App \<Rightarrow> App" where
  "axios_send rq s = s\<lparr>requests := requests s @ [rq]\<rparr>"

definition console_error :: "string \<Rightarrow> failure \<Rightarrow> App \<Rightarrow> App" where
  "console_error label err s = s\<lparr>console := console s @ [(label, err)]\<rparr>"

text \<open>
  The conditional of every \<open>catch\<close> block that reports to the user:
  \<^verbatim>\<open>err instanceof AxiosError ? `<what>: ${err.message}` : 'An unexpected error occurred'\<close>.
\<close>

fun errorMessage :: "string \<Rightarrow> failure \<Rightarrow> string" where
  "errorMessage what (AxiosError msg st) = what @ '': '' @ msg"
| "errorMessage what OtherError = ''An unexpected error occurred''"

text \<open>\<^verbatim>\<open>err instanceof AxiosError && err.response?.status === 401\<close>\<close>

fun is_401 :: "failure \<Rightarrow> bool" where
  "is_401 (AxiosError msg st) = (st = Some 401)"
| "is_401 OtherError = False"

subsection \<open>fetchApiInfo\<close>

definition fetchApiInfo_start :: "App \<Rightarrow> App" where
  "fetchApiInfo_start s =
     axios_send \<lparr>http_method = GET, url = API_BASE_URL @ ''/api/info'', authorization = None\<rparr>
       (s\<lparr>loading := True, error := None\<rparr>)"

definition fetchApiInfo_resume :: "failure + ApiInfo \<Rightarrow> App \<Rightarrow> App" where
  "fetchApiInfo_resume r s =
     (case r of
        Inr d \<Rightarrow> s\<lparr>apiInfo := Some d\<rparr>
      | Inl err \<Rightarrow>
          console_error ''API Error:'' err
            (s\<lparr>error := Some (errorMessage ''Failed to fetch API info'' err)\<rparr>))
     \<lparr>loading := False\<rparr>"

definition fetchApiInfo :: "failure + ApiInfo \<Rightarrow> App \<Rightarrow> App" where
  "fetchApiInfo r s = fetchApiInfo_resume r (fetchApiInfo_start s)"

subsection \<open>handleLogout\<close>

text \<open>
  The handlers are closures of one render of the component: \<open>authToken\<close> read inside a
  handler is the value of the state cell at that render, not what \<open>setAuthToken\<close> has
  queued since. It is the argument \<open>rendered\<close> of the handlers that read it. A handler
  run from the page as rendered for state \<open>s\<close> has \<open>rendered = authToken s\<close>.
\<close>

definition handleLogout_start :: "string option \<Rightarrow> App \<Rightarrow> App" where
  "handleLogout_start rendered s =
     axios_send
       \<lparr>http_method = POST, url = API_BASE_URL @ ''/auth/logout'',
        authorization = (if truthy rendered then Some (''Bearer '' @ the rendered) else None)\<rparr>
       (s\<lparr>loading := True, error := None\<rparr>)"

definition handleLogout_resume :: "failure + unit \<Rightarrow> App \<Rightarrow> App" where
  "handleLogout_resume r s =
     (let s1 = (case r of Inr u \<Rightarrow> s | Inl err \<Rightarrow> console_error ''Logout Error:'' err s);
          s2 = s1\<lparr>authToken := None, userInfo := None, protectedData := None\<rparr>;
          s3 = removeItem ''session_id'' (removeItem ''auth_token'' s2)
      in s3\<lparr>loading := False\<rparr>)"

definition handleLogout :: "string option \<Rightarrow> failure + unit \<Rightarrow> App \<Rightarrow> App" where
  "handleLogout rendered r s = handleLogout_resume r (handleLogout_start rendered s)"

subsection \<open>fetchUserInfo\<close>

text \<open>
  \<open>tokenToUse\<close> is \<open>token || authToken\<close>, with \<open>authToken\<close> the rendered state cell. On
  a 401 the \<open>catch\<close> block calls \<open>handleLogout()\<close> without awaiting it: the
  logout's synchronous prefix runs inside the \<open>catch\<close>, then the \<open>finally\<close> of
  \<open>fetchUserInfo\<close>, and the rest of the logout when its POST settles.
\<close>

definition fetchUserInfo_start :: "string option \<Rightarrow> string option \<Rightarrow> App \<Rightarrow> progress" where
  "fetchUserInfo_start rendered token s =
     (let tokenToUse = js_or token rendered
      in if \<not> truthy tokenToUse then Settled s
         else InFlight
           (axios_send
              \<lparr>http_method = GET, url = API_BASE_URL @ ''/auth/user'',
               authorization = Some (''Bearer '' @ the tokenToUse)\<rparr>
              (s\<lparr>loading := True, error := None\<rparr>)))"

definition fetchUserInfo_resume :: "string option \<Rightarrow> failure + UserInfo \<Rightarrow> App \<Rightarrow> progress" where
  "fetchUserInfo_resume rendered r s =
     (case r of
        Inr d \<Rightarrow> Settled (s\<lparr>userInfo := Some d, loading := False\<rparr>)
      | Inl err \<Rightarrow>
          (let s1 = console_error ''User Info Error:'' err
                      (s\<lparr>error := Some (errorMessage ''Failed to fetch user info'' err)\<rparr>)
           in if is_401 err
              then InFlight ((handleLogout_start rendered s1)\<lparr>loading := False\<rparr>)
              else Settled (s1\<lparr>loading := False\<rparr>)))"

text \<open>
  A whole run of the user lookup: \<open>r\<close> settles the GET, \<open>r_logout\<close> settles the POST of the
  logout it may have started.
\<close>

definition fetchUserInfo ::
  "string option \<Rightarrow> string option \<Rightarrow> failure + UserInfo \<Rightarrow> failure + unit \<Rightarrow> App \<Rightarrow> App" where
  "fetchUserInfo rendered token r r_logout s =
     (case fetchUserInfo_start rendered token s of
        Settled s1 \<Rightarrow> s1
      | InFlight s1 \<Rightarrow>
          (case fetchUserInfo_resume rendered r s1 of
             Settled s2 \<Rightarrow> s2
           | InFlight s2 \<Rightarrow> handleLogout_resume r_logout s2))"

subsection \<open>handleLogin\<close>

definition handleLogin_start :: "App \<Rightarrow> App" where
  "handleLogin_start s =
     axios_send \<lparr>http_method = GET, url = API_BASE_URL @ ''/auth/login'', authorization = None\<rparr>
       (s\<lparr>loading := True, error := None\<rparr>)"

definition handleLogin_resume :: "failure + AuthResponse \<Rightarrow> App \<Rightarrow> App" where
  "handleLogin_resume r s =
     (case r of
        Inr d \<Rightarrow> s\<lparr>href := Some (authorization_url d)\<rparr>
      | Inl err \<Rightarrow>
          console_error ''Login Error:'' err
            (s\<lparr>error := Some (errorMessage ''Failed to initiate login'' err)\<rparr>))
     \<lparr>loading := False\<rparr>"

definition handleLogin :: "failure + AuthResponse \<Rightarrow> App \<Rightarrow> App" where
  "handleLogin r s = handleLogin_resume r (handleLogin_start s)"

subsection \<open>fetchProtectedData\<close>

definition fetchProtectedData_start :: "string option \<Rightarrow> App \<Rightarrow> progress" where
  "fetchProtectedData_start rendered s =
     (if \<not> truthy rendered then Settled (s\<lparr>error := Some ''Please log in first''\<rparr>)
      else InFlight
        (axios_send
           \<lparr>http_method = GET, url = API_BASE_URL @ ''/api/protected'',
            authorization = Some (''Bearer '' @ the rendered)\<rparr>
           (s\<lparr>loading := True, error := None\<rparr>)))"

definition fetchProtectedData_resume :: "failure + ProtectedData \<Rightarrow> App \<Rightarrow> App" where
  "fetchProtectedData_resume r s =
     (case r of
        Inr d \<Rightarrow> s\<lparr>protectedData := Some d\<rparr>
      | Inl err \<Rightarrow>
          console_error ''Protected API Error:'' err
            (s\<lparr>error := Some (errorMessage ''Failed to fetch protected data'' err)\<rparr>))
     \<lparr>loading := False\<rparr>"

definition fetchProtectedData :: "string option \<Rightarrow> failure + ProtectedData \<Rightarrow> App \<Rightarrow> App" where
  "fetchProtectedData rendered r s =
     (case fetchProtectedData_start rendered s of
        Settled s1 \<Rightarrow> s1
      | InFlight s1 \<Rightarrow> fetchProtectedData_resume r s1)"

subsection \<open>checkAuthStatus\<close>

text \<open>
  \<open>checkAuthStatus\<close> is an ordinary function: it returns or it throws, and what it did
  up to that point stays done.
\<close>

datatype exn = SecurityError

datatype outcome = Returned App | Thrown exn App

fun state_at :: "outcome \<Rightarrow> App" where
  "state_at (Returned s) = s"
| "state_at (Thrown e s) = s"

fun returned :: "outcome \<Rightarrow> bool" where
  "returned (Returned s) = True"
| "returned (Thrown e s) = False"

text \<open>
  \<^verbatim>\<open>window.history.replaceState({}, document.title, window.location.pathname)\<close> hands the
  pathname to the browser's URL parser as a URL relative to the document. A pathname of
  the usual shape, one slash followed by anything but a slash or a backslash, is read as
  a path: the document keeps that pathname and loses its query. Any other string is not
  read as a path: one that begins with two slashes is scheme-relative, its first segment
  names a host. What the parser makes of such a string is the browser's business and is
  the argument \<open>resolve\<close>: the pathname and the query of the URL the string names, or
  nothing when that URL is of another origin than the document, in which case
  \<open>replaceState\<close> throws a \<open>SecurityError\<close>.
\<close>

type_synonym resolver = "string \<Rightarrow> (string \<times> (string \<times> string) list) option"

fun plain_path :: "string \<Rightarrow> bool" where
  "plain_path [] = False"
| "plain_path [a] = (a = CHR ''/'')"
| "plain_path (a # b # u) = (a = CHR ''/'' \<and> b \<noteq> CHR ''/'' \<and> b \<noteq> CHR 0x5C)"

definition replaceState :: "resolver \<Rightarrow> string \<Rightarrow> App \<Rightarrow> exn + App" where
  "replaceState resolve u s =
     (if plain_path u then Inr (s\<lparr>pathname := u, search := []\<rparr>)
      else case resolve u of
             None \<Rightarrow> Inl SecurityError
           | Some (p, q) \<Rightarrow> Inr (s\<lparr>pathname := p, search := q\<rparr>))"

text \<open>
  \<open>checkAuthStatus\<close> is not \<open>async\<close>: it returns when the synchronous prefix of the
  \<open>fetchUserInfo\<close> it calls has run. When \<open>replaceState\<close> throws, the token and the
  session id are already in local storage and \<open>fetchUserInfo\<close> is not reached.
\<close>

definition checkAuthStatus :: "resolver \<Rightarrow> string option \<Rightarrow> App \<Rightarrow> outcome" where
  "checkAuthStatus resolve rendered s =
     (let tokenFromUrl = urlParams_get (search s) ''token'';
          sessionFromUrl = urlParams_get (search s) ''session''
      in if truthy tokenFromUrl then
           (let s1 = s\<lparr>authToken := tokenFromUrl\<rparr>;
                s2 = setItem ''auth_token'' (the tokenFromUrl) s1;
                s3 = (if truthy sessionFromUrl
                      then setItem ''session_id'' (the sessionFromUrl) s2 else s2)
            in case replaceState resolve (pathname s3) s3 of
                 Inl e \<Rightarrow> Thrown e s3
               | Inr s4 \<Rightarrow> Returned (state_of (fetchUserInfo_start rendered tokenFromUrl s4)))
         else
           (let storedToken = localStorage s ''auth_token''
            in if truthy storedToken
               then Returned (state_of (fetchUserInfo_start rendered storedToken
                                          (s\<lparr>authToken := storedToken\<rparr>)))
               else Returned s))"

text \<open>
  The component as first rendered: every \<open>useState\<close> cell at its initial value, over the
  storage and the URL the page was loaded with. The mount effect runs \<open>checkAuthStatus\<close>
  and then, unless that threw, the prefix of \<open>fetchApiInfo\<close>.
\<close>

definition initial :: "(string \<rightharpoonup> string) \<Rightarrow> string \<Rightarrow> (string \<times> string) list \<Rightarrow> App" where
  "initial storage path query =
     \<lparr>apiInfo = None, protectedData = None, userInfo = None, loading = False, error = None,
      authToken = None, localStorage = storage, pathname = path, search = query, href = None,
      requests = [], console = []\<rparr>"

definition mount :: "resolver \<Rightarrow> App \<Rightarrow> outcome" where
  "mount resolve s =
     (case checkAuthStatus resolve (authToken s) s of
        Returned s1 \<Rightarrow> Returned (fetchApiInfo_start s1)
      | Thrown e s1 \<Rightarrow> Thrown e s1)"

section \<open>Properties\<close>

lemmas op_defs =
  setItem_def removeItem_def axios_send_def console_error_def truthy_def js_or_def
  urlParams_get_def

lemma errorMessage_nonempty: "what \<noteq> [] \<Longrightarrow> errorMessage what err \<noteq> []"
  by (cases err) simp_all

subsection \<open>Logout\<close>

text \<open>
  Whatever the state is when the POST settles, the \<open>finally\<close> block of \<open>handleLogout\<close>
  leaves the authentication state empty.
\<close>

lemma handleLogout_resume_clears:
  "authToken (handleLogout_resume r s) = None \<and>
   userInfo (handleLogout_resume r s) = None \<and>
   protectedData (handleLogout_resume r s) = None \<and>
   localStorage (handleLogout_resume r s) ''auth_token'' = None \<and>
   localStorage (handleLogout_resume r s) ''session_id'' = None"
  by (simp add: handleLogout_resume_def op_defs Let_def split: sum.splits)

lemma handleLogout_resume_requests:
  "requests (handleLogout_resume r s) = requests s"
  by (simp add: handleLogout_resume_def op_defs Let_def split: sum.splits)

text \<open>
  C1. Every run of the logout, whether its POST to \<open>/auth/logout\<close> resolves or rejects,
  ends with the in-memory token, the user info and the protected data null and with the
  keys \<open>auth_token\<close> and \<open>session_id\<close> absent from local storage.
\<close>

theorem logout_clears_local_state:
  "authToken (handleLogout rendered r s) = None \<and>
   userInfo (handleLogout rendered r s) = None \<and>
   protectedData (handleLogout rendered r s) = None \<and>
   localStorage (handleLogout rendered r s) ''auth_token'' = None \<and>
   localStorage (handleLogout rendered r s) ''session_id'' = None"
  unfolding handleLogout_def by (rule handleLogout_resume_clears)

subsection \<open>The auth-status check\<close>

text \<open>
  The branch of \<open>checkAuthStatus\<close> taken with a truthy token in the URL: what it leaves in
  local storage whether or not \<open>replaceState\<close> throws, the requests in either case, and
  the whole result when the pathname is a plain path.
\<close>

lemma checkAuthStatus_url_storage:
  assumes "urlParams_get (search s) ''token'' = Some t" and "t \<noteq> []"
  shows "localStorage (state_at (checkAuthStatus resolve rendered s)) =
         (if truthy (urlParams_get (search s) ''session'')
          then (localStorage s)(''auth_token'' \<mapsto> t,
                 ''session_id'' \<mapsto> the (urlParams_get (search s) ''session''))
          else (localStorage s)(''auth_token'' \<mapsto> t))"
  using assms
  by (simp add: checkAuthStatus_def replaceState_def fetchUserInfo_start_def Let_def
      truthy_def js_or_def setItem_def axios_send_def split: option.splits prod.splits)

lemma checkAuthStatus_url_returned:
  assumes "urlParams_get (search s) ''token'' = Some t" and "t \<noteq> []"
    and "returned (checkAuthStatus resolve rendered s)"
  shows "authToken (state_at (checkAuthStatus resolve rendered s)) = Some t \<and>
         requests (state_at (checkAuthStatus resolve rendered s)) =
           requests s @
             [\<lparr>http_method = GET, url = API_BASE_URL @ ''/auth/user'',
               authorization = Some (''Bearer '' @ t)\<rparr>]"
  using assms
  by (simp add: checkAuthStatus_def replaceState_def fetchUserInfo_start_def Let_def
      truthy_def js_or_def setItem_def axios_send_def split: option.splits prod.splits if_splits)


lemma checkAuthStatus_url_plain:
  assumes "urlParams_get (search s) ''token'' = Some t" and "t \<noteq> []"
    and "plain_path (pathname s)"
  shows "returned (checkAuthStatus resolve rendered s) \<and>
         search (state_at (checkAuthStatus resolve rendered s)) = [] \<and>
         pathname (state_at (checkAuthStatus resolve rendered s)) = pathname s"
  using assms
  by (simp add: checkAuthStatus_def replaceState_def fetchUserInfo_start_def Let_def
      truthy_def js_or_def setItem_def axios_send_def)

text \<open>The branch taken with no truthy token in the URL and a truthy one in local storage.\<close>

lemma checkAuthStatus_stored_branch:
  assumes "\<not> truthy (urlParams_get (search s) ''token'')"
    and "localStorage s ''auth_token'' = Some t" and "t \<noteq> []"
  shows "checkAuthStatus resolve rendered s =
         Returned
           (axios_send
              \<lparr>http_method = GET, url = API_BASE_URL @ ''/auth/user'',
               authorization = Some (''Bearer '' @ t)\<rparr>
              (s\<lparr>authToken := Some t, loading := True, error := None\<rparr>))"
  using assms
  by (simp add: checkAuthStatus_def fetchUserInfo_start_def Let_def truthy_def js_or_def)

lemma checkAuthStatus_no_token:
  assumes "\<not> truthy (urlParams_get (search s) ''token'')"
    and "\<not> truthy (localStorage s ''auth_token'')"
  shows "checkAuthStatus resolve rendered s = Returned s"
  using assms by (simp add: checkAuthStatus_def Let_def)

text \<open>
  C2 (amended). For every page load whose query string has a non-empty \<open>token\<close>
  parameter, the auth-status check stores that value under the \<open>auth_token\<close> key of local
  storage. When moreover the pathname does not begin with two slashes, the check returns
  with that value as the in-memory token and with the URL replaced by the bare pathname,
  the query gone.
\<close>

theorem checkAuthStatus_persists_url_token:
  assumes "urlParams_get (search s) ''token'' = Some t" and "t \<noteq> []"
  shows "localStorage (state_at (checkAuthStatus resolve rendered s)) ''auth_token'' = Some t \<and>
         (plain_path (pathname s) \<longrightarrow>
            returned (checkAuthStatus resolve rendered s) \<and>
            authToken (state_at (checkAuthStatus resolve rendered s)) = Some t \<and>
            search (state_at (checkAuthStatus resolve rendered s)) = [] \<and>
            pathname (state_at (checkAuthStatus resolve rendered s)) = pathname s)"
  using checkAuthStatus_url_plain [OF assms] checkAuthStatus_url_returned [OF assms]
  by (simp add: checkAuthStatus_url_storage [OF assms])

text \<open>The page loaded at \<open>/?token=abc\<close> with empty storage.\<close>

theorem checkAuthStatus_persists_url_token_witness:
  "urlParams_get (search (initial Map.empty ''/'' [(''token'', ''abc'')])) ''token'' = Some ''abc'' \<and>
   ''abc'' \<noteq> [] \<and>
   plain_path (pathname (initial Map.empty ''/'' [(''token'', ''abc'')])) \<and>
   localStorage
     (state_at (checkAuthStatus (\<lambda>u. None) None (initial Map.empty ''/'' [(''token'', ''abc'')])))
     ''auth_token'' = Some ''abc'' \<and>
   returned (checkAuthStatus (\<lambda>u. None) None (initial Map.empty ''/'' [(''token'', ''abc'')])) \<and>
   authToken
     (state_at (checkAuthStatus (\<lambda>u. None) None (initial Map.empty ''/'' [(''token'', ''abc'')])))
     = Some ''abc'' \<and>
   search
     (state_at (checkAuthStatus (\<lambda>u. None) None (initial Map.empty ''/'' [(''token'', ''abc'')])))
     = [] \<and>
   pathname
     (state_at (checkAuthStatus (\<lambda>u. None) None (initial Map.empty ''/'' [(''token'', ''abc'')])))
     = ''/''"
  using checkAuthStatus_persists_url_token
    [of "initial Map.empty ''/'' [(''token'', ''abc'')]" "''abc''" "\<lambda>u. None" None]
  by (simp add: initial_def urlParams_get_def)

text \<open>
  Two page loads with a \<open>token\<close> parameter. At \<open>/?token=\<close> the parameter is there with the
  empty string as value, which \<open>if (tokenFromUrl)\<close> takes for no token: nothing is stored,
  the in-memory token stays null and the query stays in the URL. At \<open>//foo?token=abc\<close>, on
  a page that is not served from the host \<open>foo\<close>, the pathname \<open>//foo\<close> names another
  origin: \<open>replaceState\<close> throws, the check does not return and the query stays in the
  URL.
\<close>

theorem checkAuthStatus_url_token_not_handled:
  "urlParams_get (search (initial Map.empty ''/'' [(''token'', [])])) ''token'' = Some [] \<and>
   localStorage
     (state_at (checkAuthStatus (\<lambda>u. None) None (initial Map.empty ''/'' [(''token'', [])])))
     ''auth_token'' = None \<and>
   authToken
     (state_at (checkAuthStatus (\<lambda>u. None) None (initial Map.empty ''/'' [(''token'', [])])))
     = None \<and>
   search
     (state_at (checkAuthStatus (\<lambda>u. None) None (initial Map.empty ''/'' [(''token'', [])])))
     = [(''token'', [])] \<and>
   urlParams_get (search (initial Map.empty ''//foo'' [(''token'', ''abc'')])) ''token''
     = Some ''abc'' \<and>
   \<not> returned
       (checkAuthStatus (\<lambda>u. None) None (initial Map.empty ''//foo'' [(''token'', ''abc'')])) \<and>
   search
     (state_at
        (checkAuthStatus (\<lambda>u. None) None (initial Map.empty ''//foo'' [(''token'', ''abc'')])))
     = [(''token'', ''abc'')]"
  by (simp add: checkAuthStatus_def replaceState_def initial_def op_defs Let_def)

text \<open>
  C6 (amended). For every page load whose query string has a non-empty \<open>token\<close>
  parameter and a non-empty \<open>session\<close> parameter, the session id is taken from the URL and
  stored under the \<open>session_id\<close> key of local storage.
\<close>

theorem checkAuthStatus_persists_url_session:
  assumes "urlParams_get (search s) ''token'' = Some t" and "t \<noteq> []"
    and "urlParams_get (search s) ''session'' = Some sid" and "sid \<noteq> []"
  shows "localStorage (state_at (checkAuthStatus resolve rendered s)) ''session_id'' = Some sid"
  using assms(3,4)
  by (simp add: checkAuthStatus_url_storage [OF assms(1,2)] truthy_def)

text \<open>The page loaded at \<open>/?token=abc&session=s1\<close> with empty storage.\<close>

theorem checkAuthStatus_persists_url_session_witness:
  "urlParams_get (search (initial Map.empty ''/'' [(''token'', ''abc''), (''session'', ''s1'')]))
     ''token'' = Some ''abc'' \<and>
   ''abc'' \<noteq> [] \<and>
   urlParams_get (search (initial Map.empty ''/'' [(''token'', ''abc''), (''session'', ''s1'')]))
     ''session'' = Some ''s1'' \<and>
   ''s1'' \<noteq> [] \<and>
   localStorage
     (state_at
        (checkAuthStatus (\<lambda>u. None) None
           (initial Map.empty ''/'' [(''token'', ''abc''), (''session'', ''s1'')])))
     ''session_id'' = Some ''s1''"
  using checkAuthStatus_persists_url_session
    [of "initial Map.empty ''/'' [(''token'', ''abc''), (''session'', ''s1'')]"
        "''abc''" "''s1''" "\<lambda>u. None" None]
  by (simp add: initial_def urlParams_get_def)

text \<open>
  The page loaded at \<open>/?session=s1\<close>: a \<open>session\<close> parameter and no \<open>token\<close>. The session
  id is read from the URL but \<open>setItem('session_id', ...)\<close> sits inside
  \<open>if (tokenFromUrl)\<close>, so nothing is stored. At \<open>/?token=abc&session=\<close> the empty session
  value is not stored either.
\<close>

theorem checkAuthStatus_session_without_token:
  "urlParams_get (search (initial Map.empty ''/'' [(''session'', ''s1'')])) ''session'' = Some ''s1'' \<and>
   localStorage
     (state_at (checkAuthStatus (\<lambda>u. None) None (initial Map.empty ''/'' [(''session'', ''s1'')])))
     ''session_id'' = None \<and>
   urlParams_get (search (initial Map.empty ''/'' [(''token'', ''abc''), (''session'', [])]))
     ''session'' = Some [] \<and>
   localStorage
     (state_at
        (checkAuthStatus (\<lambda>u. None) None
           (initial Map.empty ''/'' [(''token'', ''abc''), (''session'', [])])))
     ''session_id'' = None"
  by (simp add: checkAuthStatus_def replaceState_def fetchUserInfo_start_def initial_def op_defs
      Let_def)

text \<open>
  What the client keeps under \<open>auth_token\<close> is a token, a non-empty string: the one
  \<open>setItem('auth_token', ...)\<close> sits under \<open>if (tokenFromUrl)\<close>, and no operation turns a
  storage without an empty token into one with it.
\<close>

lemma stored_token_never_empty:
  assumes "localStorage s ''auth_token'' \<noteq> Some []"
  shows "localStorage (state_at (checkAuthStatus resolve rendered s)) ''auth_token'' \<noteq> Some []"
    and "localStorage (fetchApiInfo r_info s) ''auth_token'' \<noteq> Some []"
    and "localStorage (handleLogin r_login s) ''auth_token'' \<noteq> Some []"
    and "localStorage (handleLogout rendered r_logout s) ''auth_token'' \<noteq> Some []"
    and "localStorage (fetchUserInfo rendered token r_user r_logout s) ''auth_token'' \<noteq> Some []"
    and "localStorage (fetchProtectedData rendered r_prot s) ''auth_token'' \<noteq> Some []"
proof -
  show "localStorage (state_at (checkAuthStatus resolve rendered s)) ''auth_token'' \<noteq> Some []"
    using assms
    by (simp add: checkAuthStatus_def replaceState_def fetchUserInfo_start_def Let_def
        truthy_def js_or_def setItem_def axios_send_def split: option.splits prod.splits)
  show "localStorage (fetchApiInfo r_info s) ''auth_token'' \<noteq> Some []"
    using assms
    by (simp add: fetchApiInfo_def fetchApiInfo_start_def fetchApiInfo_resume_def
        axios_send_def console_error_def split: sum.splits)
  show "localStorage (handleLogin r_login s) ''auth_token'' \<noteq> Some []"
    using assms
    by (simp add: handleLogin_def handleLogin_start_def handleLogin_resume_def
        axios_send_def console_error_def split: sum.splits)
  show "localStorage (handleLogout rendered r_logout s) ''auth_token'' \<noteq> Some []"
    using handleLogout_resume_clears by (simp add: handleLogout_def)
  show "localStorage (fetchUserInfo rendered token r_user r_logout s) ''auth_token'' \<noteq> Some []"
    using assms handleLogout_resume_clears
    by (simp add: fetchUserInfo_def fetchUserInfo_start_def fetchUserInfo_resume_def Let_def
        axios_send_def console_error_def split: sum.splits)
  show "localStorage (fetchProtectedData rendered r_prot s) ''auth_token'' \<noteq> Some []"
    using assms
    by (simp add: fetchProtectedData_def fetchProtectedData_start_def
        fetchProtectedData_resume_def axios_send_def console_error_def split: sum.splits)
qed

text \<open>
  C7. For every page load whose query string has no \<open>token\<close> parameter while a token, a
  non-empty string \<open>t\<close>, is stored under the \<open>auth_token\<close> key, the auth-status check
  returns with the stored token as the in-memory token and has started the user lookup
  with it: one GET to \<open>/auth/user\<close> whose Authorization header is \<open>Bearer\<close> followed by
  that token.
\<close>

theorem checkAuthStatus_uses_stored_token:
  assumes "urlParams_get (search s) ''token'' = None"
    and "localStorage s ''auth_token'' = Some t" and "t \<noteq> []"
  shows "returned (checkAuthStatus resolve rendered s) \<and>
         authToken (state_at (checkAuthStatus resolve rendered s)) = Some t \<and>
         requests (state_at (checkAuthStatus resolve rendered s)) =
           requests s @
             [\<lparr>http_method = GET, url = API_BASE_URL @ ''/auth/user'',
               authorization = Some (''Bearer '' @ t)\<rparr>]"
proof -
  from assms(1) have "\<not> truthy (urlParams_get (search s) ''token'')"
    by (simp add: truthy_def)
  from checkAuthStatus_stored_branch [OF this assms(2,3)] show ?thesis
    by (simp add: axios_send_def)
qed

text \<open>The page loaded at \<open>/\<close> with \<open>auth_token = abc\<close> in local storage.\<close>

theorem checkAuthStatus_uses_stored_token_witness:
  "urlParams_get (search (initial [''auth_token'' \<mapsto> ''abc''] ''/'' [])) ''token'' = None \<and>
   localStorage (initial [''auth_token'' \<mapsto> ''abc''] ''/'' []) ''auth_token'' = Some ''abc'' \<and>
   ''abc'' \<noteq> [] \<and>
   returned (checkAuthStatus (\<lambda>u. None) None (initial [''auth_token'' \<mapsto> ''abc''] ''/'' [])) \<and>
   authToken
     (state_at (checkAuthStatus (\<lambda>u. None) None (initial [''auth_token'' \<mapsto> ''abc''] ''/'' [])))
     = Some ''abc'' \<and>
   requests
     (state_at (checkAuthStatus (\<lambda>u. None) None (initial [''auth_token'' \<mapsto> ''abc''] ''/'' []))) =
     [\<lparr>http_method = GET, url = ''http://localhost:8000/auth/user'',
       authorization = Some ''Bearer abc''\<rparr>]"
  using checkAuthStatus_uses_stored_token
    [of "initial [''auth_token'' \<mapsto> ''abc''] ''/'' []" "''abc''" "\<lambda>u. None" None]
  by (simp add: initial_def urlParams_get_def API_BASE_URL_def)




subsection \<open>The protected resource\<close>

text \<open>
  C3. Every call of \<open>fetchProtectedData\<close> made while the in-memory token is null issues no
  HTTP request (so none to \<open>/api/protected\<close>) and obtains no protected data, whatever the
  server would have answered: the resource is reached only with a token.
\<close>

theorem fetchProtectedData_requires_token:
  assumes "authToken s = None"
  shows "requests (fetchProtectedData (authToken s) r s) = requests s \<and>
         protectedData (fetchProtectedData (authToken s) r s) = protectedData s \<and>
         fetchProtectedData_start (authToken s) s
           = Settled (s\<lparr>error := Some ''Please log in first''\<rparr>)"
  using assms by (simp add: fetchProtectedData_def fetchProtectedData_start_def truthy_def)

text \<open>The freshly loaded page, no token anywhere, and a server that would answer.\<close>

theorem fetchProtectedData_requires_token_witness:
  "authToken (initial Map.empty ''/'' []) = None \<and>
   requests
     (fetchProtectedData (authToken (initial Map.empty ''/'' []))
        (Inr \<lparr>message = ''hi'', data = ''d'', user_email = ''a@b.c'', game_access = True,
              auth_method = ''google''\<rparr>)
        (initial Map.empty ''/'' [])) = [] \<and>
   protectedData
     (fetchProtectedData (authToken (initial Map.empty ''/'' []))
        (Inr \<lparr>message = ''hi'', data = ''d'', user_email = ''a@b.c'', game_access = True,
              auth_method = ''google''\<rparr>)
        (initial Map.empty ''/'' [])) = None"
  using fetchProtectedData_requires_token
    [of "initial Map.empty ''/'' []"
        "Inr \<lparr>message = ''hi'', data = ''d'', user_email = ''a@b.c'', game_access = True,
              auth_method = ''google''\<rparr>"]
  by (simp add: initial_def)

text \<open>
  C9. A call of \<open>fetchProtectedData\<close> made while the in-memory token is null changes the
  state in one place only: the error message becomes \<open>Please log in first\<close>. The protected
  data, the user info, the token, the loading flag and local storage (both keys) are as
  before.
\<close>

theorem fetchProtectedData_without_token_frame:
  assumes "authToken s = None"
  shows "fetchProtectedData (authToken s) r s = s\<lparr>error := Some ''Please log in first''\<rparr> \<and>
         protectedData (fetchProtectedData (authToken s) r s) = protectedData s \<and>
         userInfo (fetchProtectedData (authToken s) r s) = userInfo s \<and>
         authToken (fetchProtectedData (authToken s) r s) = authToken s \<and>
         loading (fetchProtectedData (authToken s) r s) = loading s \<and>
         localStorage (fetchProtectedData (authToken s) r s) = localStorage s"
  using assms by (simp add: fetchProtectedData_def fetchProtectedData_start_def truthy_def)

text \<open>A page with a session id left in storage, a lookup still loading, and no token.\<close>

theorem fetchProtectedData_without_token_frame_witness:
  "authToken ((initial [''session_id'' \<mapsto> ''s1''] ''/'' [])\<lparr>loading := True\<rparr>) = None \<and>
   fetchProtectedData (authToken ((initial [''session_id'' \<mapsto> ''s1''] ''/'' [])\<lparr>loading := True\<rparr>))
     (Inl OtherError) ((initial [''session_id'' \<mapsto> ''s1''] ''/'' [])\<lparr>loading := True\<rparr>)
   = (initial [''session_id'' \<mapsto> ''s1''] ''/'' [])
       \<lparr>loading := True, error := Some ''Please log in first''\<rparr>"
  using fetchProtectedData_without_token_frame
    [of "(initial [''session_id'' \<mapsto> ''s1''] ''/'' [])\<lparr>loading := True\<rparr>" "Inl OtherError"]
  by (simp add: initial_def)

subsection \<open>The user lookup\<close>

text \<open>
  A run of \<open>fetchUserInfo\<close> whose GET is rejected, as one equation per case: on a 401 the
  logout runs to its end, on any other rejection the run stops after the \<open>finally\<close>.
\<close>

lemma fetchUserInfo_run_401:
  assumes "js_or token rendered = Some t" and "t \<noteq> []"
  shows "fetchUserInfo rendered token (Inl (AxiosError msg (Some 401))) r_logout s =
         handleLogout_resume r_logout
           ((handleLogout_start rendered
               (console_error ''User Info Error:'' (AxiosError msg (Some 401))
                  ((axios_send
                      \<lparr>http_method = GET, url = API_BASE_URL @ ''/auth/user'',
                       authorization = Some (''Bearer '' @ t)\<rparr>
                      (s\<lparr>loading := True, error := None\<rparr>))
                   \<lparr>error := Some (errorMessage ''Failed to fetch user info''
                                     (AxiosError msg (Some 401)))\<rparr>)))
            \<lparr>loading := False\<rparr>)"
  using assms
  by (simp add: fetchUserInfo_def fetchUserInfo_start_def fetchUserInfo_resume_def Let_def
      truthy_def)

lemma fetchUserInfo_run_failure:
  assumes "js_or token rendered = Some t" and "t \<noteq> []" and "\<not> is_401 f"
  shows "fetchUserInfo rendered token (Inl f) r_logout s =
         (console_error ''User Info Error:'' f
            ((axios_send
                \<lparr>http_method = GET, url = API_BASE_URL @ ''/auth/user'',
                 authorization = Some (''Bearer '' @ t)\<rparr>
                (s\<lparr>loading := True, error := None\<rparr>))
             \<lparr>error := Some (errorMessage ''Failed to fetch user info'' f)\<rparr>))
         \<lparr>loading := False\<rparr>"
  using assms
  by (simp add: fetchUserInfo_def fetchUserInfo_start_def fetchUserInfo_resume_def Let_def
      truthy_def)

text \<open>
  C4. In every run of the user lookup whose GET fails with status 401 the local logout
  is started (a POST to \<open>/auth/logout\<close> follows the GET) and, once it has run, the
  in-memory token, the user info and the protected data are null and the keys
  \<open>auth_token\<close> and \<open>session_id\<close> are absent from local storage. A lookup that fails in any
  other way starts no logout: the token, the user info, the protected data and local
  storage are as before and the GET is the only request. The lookup sends its GET when
  \<open>token || authToken\<close> is a non-empty string \<open>t\<close>.
\<close>

theorem fetchUserInfo_401_triggers_logout:
  assumes "js_or token rendered = Some t" and "t \<noteq> []"
  shows "(let s' = fetchUserInfo rendered token (Inl (AxiosError msg (Some 401))) r_logout s
          in authToken s' = None \<and> userInfo s' = None \<and> protectedData s' = None \<and>
             localStorage s' ''auth_token'' = None \<and> localStorage s' ''session_id'' = None \<and>
             requests s' =
               requests s @
                 [\<lparr>http_method = GET, url = API_BASE_URL @ ''/auth/user'',
                   authorization = Some (''Bearer '' @ t)\<rparr>,
                  \<lparr>http_method = POST, url = API_BASE_URL @ ''/auth/logout'',
                   authorization =
                     (if truthy rendered then Some (''Bearer '' @ the rendered) else None)\<rparr>]) \<and>
         (\<not> is_401 f \<longrightarrow>
            (let s' = fetchUserInfo rendered token (Inl f) r_logout s
             in authToken s' = authToken s \<and> userInfo s' = userInfo s \<and>
                protectedData s' = protectedData s \<and> localStorage s' = localStorage s \<and>
                requests s' =
                  requests s @
                    [\<lparr>http_method = GET, url = API_BASE_URL @ ''/auth/user'',
                      authorization = Some (''Bearer '' @ t)\<rparr>]))"
proof -
  have "\<not> is_401 f \<Longrightarrow>
        (let s' = fetchUserInfo rendered token (Inl f) r_logout s
         in authToken s' = authToken s \<and> userInfo s' = userInfo s \<and>
            protectedData s' = protectedData s \<and> localStorage s' = localStorage s \<and>
            requests s' =
              requests s @
                [\<lparr>http_method = GET, url = API_BASE_URL @ ''/auth/user'',
                  authorization = Some (''Bearer '' @ t)\<rparr>])"
    by (simp add: fetchUserInfo_run_failure [OF assms] axios_send_def console_error_def)
  moreover
  have "requests (fetchUserInfo rendered token (Inl (AxiosError msg (Some 401))) r_logout s) =
        requests s @
          [\<lparr>http_method = GET, url = API_BASE_URL @ ''/auth/user'',
            authorization = Some (''Bearer '' @ t)\<rparr>,
           \<lparr>http_method = POST, url = API_BASE_URL @ ''/auth/logout'',
            authorization =
              (if truthy rendered then Some (''Bearer '' @ the rendered) else None)\<rparr>]"
    by (simp add: fetchUserInfo_run_401 [OF assms] handleLogout_resume_requests
        handleLogout_start_def axios_send_def console_error_def)
  ultimately show ?thesis
    using handleLogout_resume_clears
    by (simp add: fetchUserInfo_run_401 [OF assms] Let_def)
qed

text \<open>
  The lookup started on page load with the stored token \<open>abc\<close> (the handlers of the first
  render see a null token): once rejected with 401, once with 500.
\<close>

theorem fetchUserInfo_401_triggers_logout_witness:
  "js_or (Some ''abc'') None = Some ''abc'' \<and> ''abc'' \<noteq> [] \<and>
   \<not> is_401 (AxiosError ''Request failed with status code 500'' (Some 500)) \<and>
   authToken
     (fetchUserInfo None (Some ''abc'')
        (Inl (AxiosError ''Request failed with status code 401'' (Some 401))) (Inr ())
        ((initial [''auth_token'' \<mapsto> ''abc''] ''/'' [])\<lparr>authToken := Some ''abc''\<rparr>)) = None \<and>
   localStorage
     (fetchUserInfo None (Some ''abc'')
        (Inl (AxiosError ''Request failed with status code 401'' (Some 401))) (Inr ())
        ((initial [''auth_token'' \<mapsto> ''abc''] ''/'' [])\<lparr>authToken := Some ''abc''\<rparr>))
     ''auth_token'' = None \<and>
   authToken
     (fetchUserInfo None (Some ''abc'')
        (Inl (AxiosError ''Request failed with status code 500'' (Some 500))) (Inr ())
        ((initial [''auth_token'' \<mapsto> ''abc''] ''/'' [])\<lparr>authToken := Some ''abc''\<rparr>))
     = Some ''abc'' \<and>
   localStorage
     (fetchUserInfo None (Some ''abc'')
        (Inl (AxiosError ''Request failed with status code 500'' (Some 500))) (Inr ())
        ((initial [''auth_token'' \<mapsto> ''abc''] ''/'' [])\<lparr>authToken := Some ''abc''\<rparr>))
     ''auth_token'' = Some ''abc''"
  using fetchUserInfo_401_triggers_logout
    [of "Some ''abc''" None "''abc''" "''Request failed with status code 401''" "Inr ()"
        "(initial [''auth_token'' \<mapsto> ''abc''] ''/'' [])\<lparr>authToken := Some ''abc''\<rparr>"
        "AxiosError ''Request failed with status code 500'' (Some 500)"]
  by (simp add: Let_def js_or_def truthy_def initial_def)

subsection \<open>Failures and the loading flag\<close>

text \<open>A rejected call, operation by operation: the run as one state update.\<close>

lemma fetchApiInfo_run_failure:
  "fetchApiInfo (Inl f) s =
   s\<lparr>loading := False, error := Some (errorMessage ''Failed to fetch API info'' f),
     requests := requests s @
       [\<lparr>http_method = GET, url = API_BASE_URL @ ''/api/info'', authorization = None\<rparr>],
     console := console s @ [(''API Error:'', f)]\<rparr>"
  by (simp add: fetchApiInfo_def fetchApiInfo_start_def fetchApiInfo_resume_def axios_send_def
      console_error_def)

lemma handleLogin_run_failure:
  "handleLogin (Inl f) s =
   s\<lparr>loading := False, error := Some (errorMessage ''Failed to initiate login'' f),
     requests := requests s @
       [\<lparr>http_method = GET, url = API_BASE_URL @ ''/auth/login'', authorization = None\<rparr>],
     console := console s @ [(''Login Error:'', f)]\<rparr>"
  by (simp add: handleLogin_def handleLogin_start_def handleLogin_resume_def axios_send_def
      console_error_def)

lemma fetchProtectedData_run_failure:
  assumes "rendered = Some t" and "t \<noteq> []"
  shows "fetchProtectedData rendered (Inl f) s =
         s\<lparr>loading := False, error := Some (errorMessage ''Failed to fetch protected data'' f),
           requests := requests s @
             [\<lparr>http_method = GET, url = API_BASE_URL @ ''/api/protected'',
               authorization = Some (''Bearer '' @ t)\<rparr>],
           console := console s @ [(''Protected API Error:'', f)]\<rparr>"
  using assms
  by (simp add: fetchProtectedData_def fetchProtectedData_start_def
      fetchProtectedData_resume_def truthy_def axios_send_def console_error_def)

lemma handleLogout_run_failure:
  "handleLogout rendered (Inl f) s =
   s\<lparr>loading := False, error := None, authToken := None, userInfo := None,
     protectedData := None,
     localStorage := (localStorage s)(''auth_token'' := None, ''session_id'' := None),
     requests := requests s @
       [\<lparr>http_method = POST, url = API_BASE_URL @ ''/auth/logout'',
         authorization = (if truthy rendered then Some (''Bearer '' @ the rendered) else None)\<rparr>],
     console := console s @ [(''Logout Error:'', f)]\<rparr>"
  by (simp add: handleLogout_def handleLogout_start_def handleLogout_resume_def Let_def
      axios_send_def console_error_def removeItem_def)

text \<open>
  C5 (amended). When the network call of the info fetch, of the login initiation, of the
  protected-data fetch, or of a user lookup rejected with anything but a 401 fails, the
  error state holds one non-empty message (the operation's phrase with the Axios message,
  or \<open>An unexpected error occurred\<close>) and the operation has issued its request once, with
  no retry. A failed logout call is logged to the console only: the error state is null
  afterwards, and the POST was issued once.
\<close>

theorem failure_sets_error_without_retry:
  "(let s' = fetchApiInfo (Inl f) s
    in error s' = Some (errorMessage ''Failed to fetch API info'' f) \<and>
       errorMessage ''Failed to fetch API info'' f \<noteq> [] \<and>
       requests s' = requests s @
         [\<lparr>http_method = GET, url = API_BASE_URL @ ''/api/info'', authorization = None\<rparr>]) \<and>
   (let s' = handleLogin (Inl f) s
    in error s' = Some (errorMessage ''Failed to initiate login'' f) \<and>
       errorMessage ''Failed to initiate login'' f \<noteq> [] \<and>
       requests s' = requests s @
         [\<lparr>http_method = GET, url = API_BASE_URL @ ''/auth/login'', authorization = None\<rparr>]) \<and>
   (rendered = Some t \<and> t \<noteq> [] \<longrightarrow>
      (let s' = fetchProtectedData rendered (Inl f) s
       in error s' = Some (errorMessage ''Failed to fetch protected data'' f) \<and>
          errorMessage ''Failed to fetch protected data'' f \<noteq> [] \<and>
          requests s' = requests s @
            [\<lparr>http_method = GET, url = API_BASE_URL @ ''/api/protected'',
              authorization = Some (''Bearer '' @ t)\<rparr>])) \<and>
   (js_or token rendered = Some u \<and> u \<noteq> [] \<and> \<not> is_401 f \<longrightarrow>
      (let s' = fetchUserInfo rendered token (Inl f) r_logout s
       in error s' = Some (errorMessage ''Failed to fetch user info'' f) \<and>
          errorMessage ''Failed to fetch user info'' f \<noteq> [] \<and>
          requests s' = requests s @
            [\<lparr>http_method = GET, url = API_BASE_URL @ ''/auth/user'',
              authorization = Some (''Bearer '' @ u)\<rparr>])) \<and>
   (let s' = handleLogout rendered (Inl f) s
    in error s' = None \<and>
       console s' = console s @ [(''Logout Error:'', f)] \<and>
       requests s' = requests s @
         [\<lparr>http_method = POST, url = API_BASE_URL @ ''/auth/logout'',
           authorization =
             (if truthy rendered then Some (''Bearer '' @ the rendered) else None)\<rparr>])"
proof -
  have info: "let s' = fetchApiInfo (Inl f) s
    in error s' = Some (errorMessage ''Failed to fetch API info'' f) \<and>
       errorMessage ''Failed to fetch API info'' f \<noteq> [] \<and>
       requests s' = requests s @
         [\<lparr>http_method = GET, url = API_BASE_URL @ ''/api/info'', authorization = None\<rparr>]"
    by (simp add: fetchApiInfo_run_failure errorMessage_nonempty)
  have login: "let s' = handleLogin (Inl f) s
    in error s' = Some (errorMessage ''Failed to initiate login'' f) \<and>
       errorMessage ''Failed to initiate login'' f \<noteq> [] \<and>
       requests s' = requests s @
         [\<lparr>http_method = GET, url = API_BASE_URL @ ''/auth/login'', authorization = None\<rparr>]"
    by (simp add: handleLogin_run_failure errorMessage_nonempty)
  have prot: "let s' = fetchProtectedData rendered (Inl f) s
       in error s' = Some (errorMessage ''Failed to fetch protected data'' f) \<and>
          errorMessage ''Failed to fetch protected data'' f \<noteq> [] \<and>
          requests s' = requests s @
            [\<lparr>http_method = GET, url = API_BASE_URL @ ''/api/protected'',
              authorization = Some (''Bearer '' @ t)\<rparr>]"
    if "rendered = Some t" and "t \<noteq> []"
    by (simp add: fetchProtectedData_run_failure [OF that] errorMessage_nonempty)
  have user: "let s' = fetchUserInfo rendered token (Inl f) r_logout s
       in error s' = Some (errorMessage ''Failed to fetch user info'' f) \<and>
          errorMessage ''Failed to fetch user info'' f \<noteq> [] \<and>
          requests s' = requests s @
            [\<lparr>http_method = GET, url = API_BASE_URL @ ''/auth/user'',
              authorization = Some (''Bearer '' @ u)\<rparr>]"
    if "js_or token rendered = Some u" and "u \<noteq> []" and "\<not> is_401 f"
    by (simp add: fetchUserInfo_run_failure [OF that] errorMessage_nonempty axios_send_def
        console_error_def)
  have logout: "let s' = handleLogout rendered (Inl f) s
    in error s' = None \<and>
       console s' = console s @ [(''Logout Error:'', f)] \<and>
       requests s' = requests s @
         [\<lparr>http_method = POST, url = API_BASE_URL @ ''/auth/logout'',
           authorization =
             (if truthy rendered then Some (''Bearer '' @ the rendered) else None)\<rparr>]"
    by (simp add: handleLogout_run_failure)
  from info login prot user logout show ?thesis by blast
qed

text \<open>
  A signed-in page (token \<open>abc\<close>) whose calls all fail with \<open>Network Error\<close>, no response
  having arrived.
\<close>

theorem failure_sets_error_without_retry_witness:
  "Some ''abc'' = Some ''abc'' \<and> ''abc'' \<noteq> [] \<and>
   js_or None (Some ''abc'') = Some ''abc'' \<and>
   \<not> is_401 (AxiosError ''Network Error'' None) \<and>
   error
     (fetchProtectedData (Some ''abc'') (Inl (AxiosError ''Network Error'' None))
        ((initial [''auth_token'' \<mapsto> ''abc''] ''/'' [])\<lparr>authToken := Some ''abc''\<rparr>))
     = Some ''Failed to fetch protected data: Network Error'' \<and>
   error
     (fetchUserInfo (Some ''abc'') None (Inl (AxiosError ''Network Error'' None)) (Inr ())
        ((initial [''auth_token'' \<mapsto> ''abc''] ''/'' [])\<lparr>authToken := Some ''abc''\<rparr>))
     = Some ''Failed to fetch user info: Network Error'' \<and>
   requests
     (fetchUserInfo (Some ''abc'') None (Inl (AxiosError ''Network Error'' None)) (Inr ())
        ((initial [''auth_token'' \<mapsto> ''abc''] ''/'' [])\<lparr>authToken := Some ''abc''\<rparr>))
     = [\<lparr>http_method = GET, url = ''http://localhost:8000/auth/user'',
         authorization = Some ''Bearer abc''\<rparr>]"
  using failure_sets_error_without_retry
    [of "AxiosError ''Network Error'' None"
        "(initial [''auth_token'' \<mapsto> ''abc''] ''/'' [])\<lparr>authToken := Some ''abc''\<rparr>"
        "Some ''abc''" "''abc''" None "''abc''" "Inr ()"]
  by (simp add: Let_def js_or_def truthy_def initial_def API_BASE_URL_def)

text \<open>
  The logout of a signed-in page whose POST fails with \<open>Network Error\<close>: the \<open>catch\<close> block
  of \<open>handleLogout\<close> only calls \<open>console.error\<close>, and the error state is null afterwards.
\<close>

theorem handleLogout_failure_leaves_no_error:
  "error
     (handleLogout (Some ''abc'') (Inl (AxiosError ''Network Error'' None))
        ((initial [''auth_token'' \<mapsto> ''abc''] ''/'' [])\<lparr>authToken := Some ''abc''\<rparr>)) = None"
  by (simp add: handleLogout_def handleLogout_start_def handleLogout_resume_def Let_def
      axios_send_def console_error_def removeItem_def initial_def)

text \<open>
  C10. Every operation that sets the loading flag (the info fetch, the login initiation,
  the logout, the user lookup once it has a token to send, the protected-data fetch once
  the rendered token is truthy) has reset it to false when it completes, whether its call
  resolved or was rejected. For the user lookup this holds when its own \<open>finally\<close> has
  run and again when the logout started by a 401 has run.
\<close>

theorem loading_reset_on_completion:
  "loading (fetchApiInfo r_info s) = False \<and>
   loading (handleLogin r_login s) = False \<and>
   loading (handleLogout rendered r_logout s) = False \<and>
   (truthy (js_or token rendered) \<longrightarrow>
      loading (state_of (fetchUserInfo_resume rendered r_user
                 (state_of (fetchUserInfo_start rendered token s)))) = False \<and>
      loading (fetchUserInfo rendered token r_user r_logout s) = False) \<and>
   (truthy rendered \<longrightarrow> loading (fetchProtectedData rendered r_prot s) = False)"
proof -
  have "loading (fetchApiInfo r_info s) = False"
    by (simp add: fetchApiInfo_def fetchApiInfo_resume_def split: sum.splits)
  moreover have "loading (handleLogin r_login s) = False"
    by (simp add: handleLogin_def handleLogin_resume_def split: sum.splits)
  moreover have out: "loading (handleLogout_resume r_logout s') = False" for s'
    by (simp add: handleLogout_resume_def Let_def removeItem_def)
  moreover have "loading (state_of (fetchUserInfo_resume rendered r_user s')) = False" for s'
    by (simp add: fetchUserInfo_resume_def Let_def split: sum.splits)
  moreover have "loading (fetchUserInfo rendered token r_user r_logout s) = False"
    if "truthy (js_or token rendered)"
    using that out
    by (simp add: fetchUserInfo_def fetchUserInfo_start_def fetchUserInfo_resume_def Let_def
        split: sum.splits)
  moreover have "loading (fetchProtectedData rendered r_prot s) = False" if "truthy rendered"
    using that
    by (simp add: fetchProtectedData_def fetchProtectedData_start_def
        fetchProtectedData_resume_def split: sum.splits)
  ultimately show ?thesis by (simp add: handleLogout_def)
qed

text \<open>
  A signed-in page: a user lookup rejected with 401 whose logout then succeeds, and a
  protected-data fetch that resolves.
\<close>

theorem loading_reset_on_completion_witness:
  "truthy (js_or (Some ''abc'') None) \<and> truthy (Some ''abc'') \<and>
   loading
     (fetchUserInfo None (Some ''abc'')
        (Inl (AxiosError ''Request failed with status code 401'' (Some 401))) (Inr ())
        (initial [''auth_token'' \<mapsto> ''abc''] ''/'' [])) = False \<and>
   loading
     (fetchProtectedData (Some ''abc'')
        (Inr \<lparr>message = ''hi'', data = ''d'', user_email = ''a@b.c'', game_access = True,
              auth_method = ''google''\<rparr>)
        ((initial [''auth_token'' \<mapsto> ''abc''] ''/'' [])\<lparr>authToken := Some ''abc''\<rparr>)) = False"
  using
    loading_reset_on_completion
      [where rendered = None and token = "Some ''abc''"
         and r_user = "Inl (AxiosError ''Request failed with status code 401'' (Some 401))"
         and r_logout = "Inr ()" and s = "initial [''auth_token'' \<mapsto> ''abc''] ''/'' []"]
    loading_reset_on_completion
      [where rendered = "Some ''abc''"
         and r_prot = "Inr \<lparr>message = ''hi'', data = ''d'', user_email = ''a@b.c'',
                            game_access = True, auth_method = ''google''\<rparr>"
         and s = "(initial [''auth_token'' \<mapsto> ''abc''] ''/'' [])\<lparr>authToken := Some ''abc''\<rparr>"]
  by (simp add: js_or_def truthy_def)

end
